theory Spec2Isabelle
  imports Main "HOL-Library.Word"
begin

section \<open>Python values\<close>

text \<open>
  The request handlers of \<^verbatim>\<open>app.py\<close> receive whatever \<^verbatim>\<open>request.get_json()\<close> returns and
  pass the fields on to the validators of \<^verbatim>\<open>models.py\<close> unchecked, so a validator can see any
  JSON value: \<^verbatim>\<open>None\<close>, a bool, an int, a float, a str, a list or a dict with str keys.
  A str is a list of characters, one \<open>char\<close> for each code point (the code points 0 to 255);
  a float is kept as the 64 bits of its IEEE 754 representation, of which the model only reads
  whether the number is zero; a dict is an association list (of distinct keys).
\<close>

datatype pyval =
    PyNone
  | PyBool bool
  | PyInt int
  | PyFloat "64 word"
  | PyStr string
  | PyList "pyval list"
  | PyDict "(string \<times> pyval) list"

text \<open>
  The exceptions that the code raises or meets. \<open>ValueError\<close> carries the message given in the
  source; the others are raised by the interpreter, by the driver of the data base
  (\<open>DriverError\<close>: a value that cannot be bound to a statement) or by the data base itself
  (\<open>IntegrityError\<close>).
\<close>

datatype pyexn =
    ValueError string
  | TypeError
  | AttributeError
  | IntegrityError
  | DriverError
  | RecursionError

text \<open>Truth value of an object, as \<^verbatim>\<open>not x\<close> and \<^verbatim>\<open>if x\<close> test it.\<close>

fun truthy :: "pyval \<Rightarrow> bool" where
  "truthy PyNone = False"
| "truthy (PyBool b) = b"
| "truthy (PyInt i) = (i \<noteq> 0)"
| "truthy (PyFloat w) = (take_bit 63 w \<noteq> 0)"
| "truthy (PyStr s) = (s \<noteq> [])"
| "truthy (PyList xs) = (xs \<noteq> [])"
| "truthy (PyDict kvs) = (kvs \<noteq> [])"

text \<open>\<^verbatim>\<open>len(x)\<close>: defined on str, list and dict, a \<open>TypeError\<close> on the other values.\<close>

fun py_len :: "pyval \<Rightarrow> pyexn + nat" where
  "py_len (PyStr s) = Inr (length s)"
| "py_len (PyList xs) = Inr (length xs)"
| "py_len (PyDict kvs) = Inr (length kvs)"
| "py_len PyNone = Inl TypeError"
| "py_len (PyBool b) = Inl TypeError"
| "py_len (PyInt i) = Inl TypeError"
| "py_len (PyFloat w) = Inl TypeError"

text \<open>\<^verbatim>\<open>s.startswith(k)\<close> and the substring test \<^verbatim>\<open>k in s\<close> on two strs.\<close>

fun starts_with :: "string \<Rightarrow> string \<Rightarrow> bool" where
  "starts_with s [] = True"
| "starts_with [] (k # ks) = False"
| "starts_with (c # cs) (k # ks) = (c = k \<and> starts_with cs ks)"

fun str_contains :: "string \<Rightarrow> string \<Rightarrow> bool" where
  "str_contains [] k = starts_with [] k"
| "str_contains (c # cs) k = (starts_with (c # cs) k \<or> str_contains cs k)"

text \<open>
  \<^verbatim>\<open>k in x\<close> for a str \<open>k\<close>: the substring test on a str, membership of an element equal to
  \<open>k\<close> on a list (among JSON values only a str equals a str), membership among the keys on
  a dict, and a \<open>TypeError\<close> (the argument is not iterable) on the other values.
\<close>

fun py_contains :: "pyval \<Rightarrow> string \<Rightarrow> pyexn + bool" where
  "py_contains (PyStr s) k = Inr (str_contains s k)"
| "py_contains (PyList xs) k = Inr (PyStr k \<in> set xs)"
| "py_contains (PyDict kvs) k = Inr (k \<in> set (map fst kvs))"
| "py_contains PyNone k = Inl TypeError"
| "py_contains (PyBool b) k = Inl TypeError"
| "py_contains (PyInt i) k = Inl TypeError"
| "py_contains (PyFloat w) k = Inl TypeError"

text \<open>
  \<^verbatim>\<open>any(k in x for k in ks)\<close>: the generator is consumed from the left, stops at the first
  true test and lets the exception of a test through.
\<close>

fun py_any_in :: "string list \<Rightarrow> pyval \<Rightarrow> pyexn + bool" where
  "py_any_in [] x = Inr False"
| "py_any_in (k # ks) x =
     (case py_contains x k of
        Inl e \<Rightarrow> Inl e
      | Inr found \<Rightarrow> if found then Inr True else py_any_in ks x)"

text \<open>
  \<^verbatim>\<open>x in ks\<close> for a list \<open>ks\<close> of strs: some element is equal to \<open>x\<close>, which only a str is.
\<close>

fun py_in_strs :: "pyval \<Rightarrow> string list \<Rightarrow> bool" where
  "py_in_strs (PyStr s) ks = (s \<in> set ks)"
| "py_in_strs x ks = False"

text \<open>\<^verbatim>\<open>data.get(k)\<close>: only a dict has the method; a missing key gives \<^verbatim>\<open>None\<close>.\<close>

fun py_get :: "pyval \<Rightarrow> string \<Rightarrow> pyexn + pyval" where
  "py_get (PyDict kvs) k = Inr (case map_of kvs k of None \<Rightarrow> PyNone | Some v \<Rightarrow> v)"
| "py_get x k = Inl AttributeError"

subsection \<open>The regular expression of the phone number\<close>

text \<open>
  The pattern \<^verbatim>\<open>\d{10}\<close> is built from the class of decimal digits and a counted repetition.
  \<open>re_match r s\<close> matches \<open>r\<close> at the start of \<open>s\<close> and returns the rest of the string
  (these patterns match in at most one way); \<^verbatim>\<open>re.fullmatch\<close> asks for an empty rest, and
  raises a \<open>TypeError\<close> on a value that is not a str.
\<close>

datatype regex = Digit | Repeat regex nat

fun re_weight :: "regex \<Rightarrow> nat" where
  "re_weight Digit = 1"
| "re_weight (Repeat r n) = re_weight r + n + 1"

function re_match :: "regex \<Rightarrow> string \<Rightarrow> string option" where
  "re_match Digit [] = None"
| "re_match Digit (c # cs) = (if c \<in> set ''0123456789'' then Some cs else None)"
| "re_match (Repeat r 0) s = Some s"
| "re_match (Repeat r (Suc n)) s =
     (case re_match r s of None \<Rightarrow> None | Some rest \<Rightarrow> re_match (Repeat r n) rest)"
  by pat_completeness auto
termination
  by (relation "measure (\<lambda>(r, s). re_weight r)") auto

fun re_fullmatch :: "regex \<Rightarrow> pyval \<Rightarrow> pyexn + bool" where
  "re_fullmatch r (PyStr s) = Inr (re_match r s = Some [])"
| "re_fullmatch r x = Inl TypeError"

section \<open>The validators of \<^verbatim>\<open>models.py\<close>\<close>

text \<open>
  A validator returns the value it accepts (\<open>Inr\<close>) or the exception it raises (\<open>Inl\<close>).
\<close>

definition validate_name :: "pyval \<Rightarrow> pyexn + pyval" where
  "validate_name name =
     (if \<not> truthy name then Inl (ValueError ''Author must have a name.'') else Inr name)"

definition validate_phone_number :: "pyval \<Rightarrow> pyexn + pyval" where
  "validate_phone_number phone_number =
     (if phone_number = PyNone then Inr phone_number
      else case re_fullmatch (Repeat Digit 10) phone_number of
             Inl e \<Rightarrow> Inl e
           | Inr matched \<Rightarrow>
               if \<not> matched then Inl (ValueError ''Phone number must be exactly ten digits.'')
               else Inr phone_number)"

definition validate_content :: "pyval \<Rightarrow> pyexn + pyval" where
  "validate_content content =
     (if \<not> truthy content
      then Inl (ValueError ''Post content must be at least 250 characters long.'')
      else case py_len content of
             Inl e \<Rightarrow> Inl e
           | Inr n \<Rightarrow>
               if n < 250
               then Inl (ValueError ''Post content must be at least 250 characters long.'')
               else Inr content)"

definition validate_summary :: "pyval \<Rightarrow> pyexn + pyval" where
  "validate_summary summary =
     (if truthy summary
      then case py_len summary of
             Inl e \<Rightarrow> Inl e
           | Inr n \<Rightarrow>
               if n > 250 then Inl (ValueError ''Post summary cannot exceed 250 characters.'')
               else Inr summary
      else Inr summary)"

definition validate_category :: "pyval \<Rightarrow> pyexn + pyval" where
  "validate_category category =
     (if \<not> py_in_strs category [''Fiction'', ''Non-Fiction'']
      then Inl (ValueError ''Post category must be 'Fiction' or 'Non-Fiction'.'')
      else Inr category)"

definition clickbait_keywords :: "string list" where
  "clickbait_keywords = [''Won't Believe'', ''Secret'', ''Top'', ''Guess'']"

definition validate_title :: "pyval \<Rightarrow> pyexn + pyval" where
  "validate_title title =
     (case py_any_in clickbait_keywords title of
        Inl e \<Rightarrow> Inl e
      | Inr found \<Rightarrow>
          if \<not> found
          then Inl (ValueError
            ''Post title must contain one of: 'Won't Believe', 'Secret', 'Top', 'Guess'.'')
          else Inr title)"

section \<open>The entities of \<^verbatim>\<open>models.py\<close>\<close>

text \<open>
  An \<open>author\<close> is an instance of the class \<^verbatim>\<open>Author\<close>, a \<open>post\<close> one of \<^verbatim>\<open>Post\<close>, with the
  columns of the class as fields. The primary key is \<open>None\<close> until the row is stored. The
  two \<^verbatim>\<open>DateTime\<close> columns, which the data base fills from its clock, are left out.
\<close>

record author =
  a_id :: "int option"
  a_name :: pyval
  a_phone_number :: pyval

record post =
  p_id :: "int option"
  p_title :: pyval
  p_content :: pyval
  p_category :: pyval
  p_summary :: pyval
  p_author_id :: pyval

text \<open>
  The constructor of a mapped class assigns its keyword arguments in the order of the call,
  and each assignment runs the validator of the attribute: the first exception leaves the
  constructor. \<^verbatim>\<open>create_author\<close> passes \<^verbatim>\<open>name\<close>, \<^verbatim>\<open>phone_number\<close>; \<^verbatim>\<open>create_post\<close> passes
  \<^verbatim>\<open>title\<close>, \<^verbatim>\<open>content\<close>, \<^verbatim>\<open>summary\<close>, \<^verbatim>\<open>category\<close>, \<^verbatim>\<open>author_id\<close> (which has no validator).
\<close>

definition Author :: "pyval \<Rightarrow> pyval \<Rightarrow> pyexn + author" where
  "Author name phone_number =
     (case validate_name name of
        Inl e \<Rightarrow> Inl e
      | Inr n \<Rightarrow>
     (case validate_phone_number phone_number of
        Inl e \<Rightarrow> Inl e
      | Inr ph \<Rightarrow> Inr \<lparr>a_id = None, a_name = n, a_phone_number = ph\<rparr>))"

definition Post :: "pyval \<Rightarrow> pyval \<Rightarrow> pyval \<Rightarrow> pyval \<Rightarrow> pyval \<Rightarrow> pyexn + post" where
  "Post title content summary category author_id =
     (case validate_title title of
        Inl e \<Rightarrow> Inl e
      | Inr t \<Rightarrow>
     (case validate_content content of
        Inl e \<Rightarrow> Inl e
      | Inr c \<Rightarrow>
     (case validate_summary summary of
        Inl e \<Rightarrow> Inl e
      | Inr s \<Rightarrow>
     (case validate_category category of
        Inl e \<Rightarrow> Inl e
      | Inr g \<Rightarrow>
          Inr \<lparr>p_id = None, p_title = t, p_content = c, p_category = g, p_summary = s,
               p_author_id = author_id\<rparr>))))"

section \<open>The data base\<close>

text \<open>
  The state of the program is the content of the two tables. What the handlers rely on and
  the repository does not contain is collected in a record \<open>runtime\<close>:
  \<^item> \<open>foreign_keys\<close>: whether the data base enforces foreign keys on this connection
    (SQLite's \<^verbatim>\<open>PRAGMA foreign_keys\<close>);
  \<^item> \<open>text_affinity\<close> and \<open>integer_affinity\<close>: the value that a \<^verbatim>\<open>String\<close> column and an
    \<^verbatim>\<open>Integer\<close> column store for a bound value;
  \<^item> \<open>recursion_limit\<close>: how many nested entities the serializer may enter before the
    interpreter raises \<open>RecursionError\<close>;
  \<^item> \<open>message_of\<close>: the text of an exception that the code does not raise itself.
\<close>

record database =
  authors :: "author list"
  posts :: "post list"

record runtime =
  foreign_keys :: bool
  text_affinity :: "pyval \<Rightarrow> pyval"
  integer_affinity :: "pyval \<Rightarrow> pyval"
  recursion_limit :: nat
  message_of :: "pyexn \<Rightarrow> string"

text \<open>
  \<^verbatim>\<open>app.py\<close> opens \<^verbatim>\<open>sqlite:///app.db\<close> and issues no \<^verbatim>\<open>PRAGMA\<close>, and SQLite leaves the
  enforcement of foreign keys off on a new connection. \<open>sqlite_runtime\<close> is this
  configuration, with columns that store a bound value as it is and the recursion limit of
  the interpreter; the texts of the exceptions, which no response shows, are left empty.
\<close>

definition sqlite_runtime :: runtime where
  "sqlite_runtime =
     \<lparr>foreign_keys = False, text_affinity = (\<lambda>v. v), integer_affinity = (\<lambda>v. v),
      recursion_limit = 1000, message_of = (\<lambda>e. [])\<rparr>"

text \<open>
  The driver binds \<^verbatim>\<open>None\<close>, bools, floats, strs and the ints of 64 bits; a list, a dict or
  a larger int makes the statement fail before it reaches the data base.
\<close>

fun bindable :: "pyval \<Rightarrow> bool" where
  "bindable (PyList xs) = False"
| "bindable (PyDict kvs) = False"
| "bindable (PyInt i) = (- (2 ^ 63) \<le> i \<and> i < 2 ^ 63)"
| "bindable x = True"

text \<open>The value of the attribute \<^verbatim>\<open>id\<close>, and the key that the data base gives to a new row.\<close>

definition pk :: "int option \<Rightarrow> pyval" where
  "pk i = (case i of None \<Rightarrow> PyNone | Some k \<Rightarrow> PyInt k)"

definition fresh_id :: "int option list \<Rightarrow> int" where
  "fresh_id ids = 1 + foldr (\<lambda>i m. case i of None \<Rightarrow> m | Some k \<Rightarrow> max k m) ids 0"

text \<open>
  \<^verbatim>\<open>db.session.add(x); db.session.commit()\<close> for a new author: the \<^verbatim>\<open>INSERT\<close> binds the
  values, the columns store them, and the constraints of the table are checked:
  \<^verbatim>\<open>name\<close> is \<^verbatim>\<open>nullable=False\<close> and \<^verbatim>\<open>unique=True\<close>. An exception leaves the data base as
  it was.
\<close>

definition commit_author :: "runtime \<Rightarrow> database \<Rightarrow> author \<Rightarrow> pyexn + (author \<times> database)" where
  "commit_author rt db a =
     (if \<not> (bindable (a_name a) \<and> bindable (a_phone_number a)) then Inl DriverError
      else
        let row = \<lparr>a_id = Some (fresh_id (map a_id (authors db))),
                   a_name = text_affinity rt (a_name a),
                   a_phone_number = text_affinity rt (a_phone_number a)\<rparr>
        in if a_name row = PyNone then Inl IntegrityError
           else if a_name row \<in> set (map a_name (authors db)) then Inl IntegrityError
           else Inr (row, db\<lparr>authors := authors db @ [row]\<rparr>))"

text \<open>
  The same for a new post: \<^verbatim>\<open>title\<close> and \<^verbatim>\<open>author_id\<close> are \<^verbatim>\<open>nullable=False\<close>, and
  \<^verbatim>\<open>author_id\<close> is a \<^verbatim>\<open>ForeignKey('authors.id')\<close>, which is checked when the connection
  enforces foreign keys.
\<close>

definition commit_post :: "runtime \<Rightarrow> database \<Rightarrow> post \<Rightarrow> pyexn + (post \<times> database)" where
  "commit_post rt db p =
     (if \<not> (bindable (p_title p) \<and> bindable (p_content p) \<and> bindable (p_category p)
            \<and> bindable (p_summary p) \<and> bindable (p_author_id p)) then Inl DriverError
      else
        let row = \<lparr>p_id = Some (fresh_id (map p_id (posts db))),
                   p_title = text_affinity rt (p_title p),
                   p_content = text_affinity rt (p_content p),
                   p_category = text_affinity rt (p_category p),
                   p_summary = text_affinity rt (p_summary p),
                   p_author_id = integer_affinity rt (p_author_id p)\<rparr>
        in if p_title row = PyNone \<or> p_author_id row = PyNone then Inl IntegrityError
           else if foreign_keys rt
                   \<and> p_author_id row \<notin> set (map (\<lambda>a. pk (a_id a)) (authors db))
           then Inl IntegrityError
           else Inr (row, db\<lparr>posts := posts db @ [row]\<rparr>))"

section \<open>Serialization\<close>

text \<open>
  The two relationships: \<^verbatim>\<open>Author.posts\<close> loads the posts whose \<^verbatim>\<open>author_id\<close> is the key of
  the author, and its \<^verbatim>\<open>backref\<close> \<^verbatim>\<open>Post.author\<close> loads the author with that key, or \<^verbatim>\<open>None\<close>.
\<close>

definition Author_posts :: "database \<Rightarrow> author \<Rightarrow> post list" where
  "Author_posts db a =
     (case a_id a of
        None \<Rightarrow> []
      | Some k \<Rightarrow> filter (\<lambda>p. p_author_id p = PyInt k) (posts db))"

definition Post_author :: "database \<Rightarrow> post \<Rightarrow> author option" where
  "Post_author db p = find (\<lambda>a. pk (a_id a) = p_author_id p \<and> a_id a \<noteq> None) (authors db)"

text \<open>
  A rule of \<^verbatim>\<open>serialize_rules\<close> that starts with \<^verbatim>\<open>-\<close> names a path of keys, separated by
  dots, that the serializer leaves out. (Both classes only have rules of this kind.)
\<close>

fun split_on :: "char \<Rightarrow> string \<Rightarrow> string list" where
  "split_on d [] = [[]]"
| "split_on d (c # cs) =
     (if c = d then [] # split_on d cs
      else case split_on d cs of
             [] \<Rightarrow> [[c]]
           | w # ws \<Rightarrow> (c # w) # ws)"

fun negative_rule :: "string \<Rightarrow> string list option" where
  "negative_rule [] = None"
| "negative_rule (c # cs) = (if c = CHR ''-'' then Some (split_on CHR ''.'' cs) else None)"

definition Author_serialize_rules :: "string list" where
  "Author_serialize_rules = [''-posts.author'']"

definition Post_serialize_rules :: "string list" where
  "Post_serialize_rules = [''-author.posts'']"

text \<open>
  A key is left out when a rule is the path of that key alone; the serializer of the value
  under a key continues with the rules that go through the key, without their first step.
\<close>

definition excluded :: "string list list \<Rightarrow> string \<Rightarrow> bool" where
  "excluded rs k = ([k] \<in> set rs)"

definition fork :: "string list list \<Rightarrow> string \<Rightarrow> string list list" where
  "fork rs k = [ks. k' # ks \<leftarrow> rs, k' = k \<and> ks \<noteq> []]"

datatype entity = Author_ent author | Post_ent post

text \<open>
  \<^verbatim>\<open>SerializerMixin.to_dict\<close>: the serializer adds the rules of the entity's class to the
  rules it arrived with, writes the columns and the relationships that are not left out, and
  enters the related entities. The first argument bounds the nesting; \<open>None\<close> is the
  \<open>RecursionError\<close> of a serialization that does not come to an end within the bound.
\<close>

fun serialize :: "nat \<Rightarrow> database \<Rightarrow> string list list \<Rightarrow> entity \<Rightarrow> pyval option" where
  "serialize 0 db rs e = None"
| "serialize (Suc n) db rs (Author_ent a) =
     (let rs' = rs @ List.map_filter negative_rule Author_serialize_rules;
          cols = [(''id'', pk (a_id a)), (''name'', a_name a),
                  (''phone_number'', a_phone_number a)];
          rels =
            (if excluded rs' ''posts'' then Some []
             else map_option (\<lambda>ds. [(''posts'', PyList ds)])
                    (those (map (\<lambda>p. serialize n db (fork rs' ''posts'') (Post_ent p))
                              (Author_posts db a))))
      in map_option (\<lambda>r. PyDict (filter (\<lambda>kv. \<not> excluded rs' (fst kv)) cols @ r)) rels)"
| "serialize (Suc n) db rs (Post_ent p) =
     (let rs' = rs @ List.map_filter negative_rule Post_serialize_rules;
          cols = [(''id'', pk (p_id p)), (''title'', p_title p), (''content'', p_content p),
                  (''category'', p_category p), (''summary'', p_summary p),
                  (''author_id'', p_author_id p)];
          rels =
            (if excluded rs' ''author'' then Some []
             else case Post_author db p of
                    None \<Rightarrow> Some [(''author'', PyNone)]
                  | Some a \<Rightarrow>
                      map_option (\<lambda>d. [(''author'', d)])
                        (serialize n db (fork rs' ''author'') (Author_ent a)))
      in map_option (\<lambda>r. PyDict (filter (\<lambda>kv. \<not> excluded rs' (fst kv)) cols @ r)) rels)"

definition to_dict :: "runtime \<Rightarrow> database \<Rightarrow> entity \<Rightarrow> pyval option" where
  "to_dict rt db e = serialize (recursion_limit rt) db [] e"

section \<open>The request handlers of \<^verbatim>\<open>app.py\<close>\<close>

record response =
  status :: nat
  body :: pyval

definition make_response :: "pyval \<Rightarrow> nat \<Rightarrow> response" where
  "make_response json code = \<lparr>status = code, body = json\<rparr>"

text \<open>
  The three error handlers take the object they are called with: Flask calls them with an
  exception, the routes call them with a str. The message of the response is the text of
  the exception in the first case, and a fixed text in the second.
\<close>

datatype pyobj = Str string | Exception string

fun not_found :: "pyobj \<Rightarrow> response" where
  "not_found (Exception m) = make_response (PyDict [(''error'', PyStr m)]) 404"
| "not_found (Str s) = make_response (PyDict [(''error'', PyStr ''Resource not found'')]) 404"

fun bad_request :: "pyobj \<Rightarrow> response" where
  "bad_request (Exception m) = make_response (PyDict [(''error'', PyStr m)]) 400"
| "bad_request (Str s) = make_response (PyDict [(''error'', PyStr ''Bad Request'')]) 400"

fun internal_server_error :: "pyobj \<Rightarrow> response" where
  "internal_server_error (Exception m) = make_response (PyDict [(''error'', PyStr m)]) 500"
| "internal_server_error (Str s) =
     make_response (PyDict [(''error'', PyStr ''Internal Server Error'')]) 500"

text \<open>\<^verbatim>\<open>str(e)\<close> for an exception.\<close>

fun str_of :: "runtime \<Rightarrow> pyexn \<Rightarrow> string" where
  "str_of rt (ValueError m) = m"
| "str_of rt e = message_of rt e"

text \<open>
  The body of the \<^verbatim>\<open>try\<close> statement of \<^verbatim>\<open>create_author\<close>. It returns the response and the
  data base after the commit, or the exception together with the data base that the
  \<^verbatim>\<open>rollback\<close> of the \<^verbatim>\<open>except\<close> clause restores: the one before the request as long as
  the commit has not succeeded, the committed one after it.
\<close>

definition try_create_author ::
  "runtime \<Rightarrow> pyval \<Rightarrow> database \<Rightarrow> (pyexn \<times> database) + (response \<times> database)" where
  "try_create_author rt data db =
     (case py_get data ''name'' of
        Inl e \<Rightarrow> Inl (e, db)
      | Inr name \<Rightarrow>
     (case py_get data ''phone_number'' of
        Inl e \<Rightarrow> Inl (e, db)
      | Inr phone_number \<Rightarrow>
     (case Author name phone_number of
        Inl e \<Rightarrow> Inl (e, db)
      | Inr new_author \<Rightarrow>
     (case commit_author rt db new_author of
        Inl e \<Rightarrow> Inl (e, db)
      | Inr (row, db') \<Rightarrow>
     (case to_dict rt db' (Author_ent row) of
        None \<Rightarrow> Inl (RecursionError, db')
      | Some d \<Rightarrow> Inr (make_response d 201, db'))))))"

definition create_author :: "runtime \<Rightarrow> pyval \<Rightarrow> database \<Rightarrow> response \<times> database" where
  "create_author rt data db =
     (if \<not> truthy data then (bad_request (Str ''No input data provided.''), db)
      else case try_create_author rt data db of
             Inr (r, db') \<Rightarrow> (r, db')
           | Inl (e, db') \<Rightarrow>
               (case e of
                  ValueError m \<Rightarrow> (bad_request (Str (str_of rt e)), db')
                | IntegrityError \<Rightarrow>
                    (bad_request (Str ''Author with this name already exists.''), db')
                | _ \<Rightarrow> (internal_server_error (Str (str_of rt e)), db')))"

definition try_create_post ::
  "runtime \<Rightarrow> pyval \<Rightarrow> database \<Rightarrow> (pyexn \<times> database) + (response \<times> database)" where
  "try_create_post rt data db =
     (case py_get data ''title'' of
        Inl e \<Rightarrow> Inl (e, db)
      | Inr title \<Rightarrow>
     (case py_get data ''content'' of
        Inl e \<Rightarrow> Inl (e, db)
      | Inr content \<Rightarrow>
     (case py_get data ''summary'' of
        Inl e \<Rightarrow> Inl (e, db)
      | Inr summary \<Rightarrow>
     (case py_get data ''category'' of
        Inl e \<Rightarrow> Inl (e, db)
      | Inr category \<Rightarrow>
     (case py_get data ''author_id'' of
        Inl e \<Rightarrow> Inl (e, db)
      | Inr author_id \<Rightarrow>
     (case Post title content summary category author_id of
        Inl e \<Rightarrow> Inl (e, db)
      | Inr new_post \<Rightarrow>
     (case commit_post rt db new_post of
        Inl e \<Rightarrow> Inl (e, db)
      | Inr (row, db') \<Rightarrow>
     (case to_dict rt db' (Post_ent row) of
        None \<Rightarrow> Inl (RecursionError, db')
      | Some d \<Rightarrow> Inr (make_response d 201, db')))))))))"

definition create_post :: "runtime \<Rightarrow> pyval \<Rightarrow> database \<Rightarrow> response \<times> database" where
  "create_post rt data db =
     (if \<not> truthy data then (bad_request (Str ''No input data provided.''), db)
      else case try_create_post rt data db of
             Inr (r, db') \<Rightarrow> (r, db')
           | Inl (e, db') \<Rightarrow>
               (case e of
                  ValueError m \<Rightarrow> (bad_request (Str (str_of rt e)), db')
                | IntegrityError \<Rightarrow>
                    (bad_request (Str ''Failed to create post. Ensure author_id is valid.''), db')
                | _ \<Rightarrow> (internal_server_error (Str (str_of rt e)), db')))"

section \<open>Deleting an author\<close>

text \<open>
  Modelled from the spec: the deletion of an Author. No route and no function of the
  repository deletes a row; the spec describes the deletion as a capability of the model
  layer ("Deleting an Author cascades deletion to its Posts"), which the relationship
  \<^verbatim>\<open>Author.posts\<close> declares with \<^verbatim>\<open>cascade='all, delete-orphan'\<close>: deleting an author deletes
  the posts of its collection \<^verbatim>\<open>posts\<close> and then the row of the author.
\<close>

definition delete_author :: "database \<Rightarrow> author \<Rightarrow> database" where
  "delete_author db a =
     db\<lparr>posts := filter (\<lambda>p. p \<notin> set (Author_posts db a)) (posts db),
        authors := filter (\<lambda>x. a_id x \<noteq> a_id a) (authors db)\<rparr>"

section \<open>Properties of the validators\<close>

lemma starts_with_iff: "starts_with s k \<longleftrightarrow> (\<exists>b. s = k @ b)"
  by (induction s k rule: starts_with.induct) auto

lemma str_contains_iff: "str_contains s k \<longleftrightarrow> (\<exists>a b. s = a @ k @ b)"
proof (induction s)
  case Nil
  then show ?case by (simp add: starts_with_iff)
next
  case (Cons c cs)
  show ?case
  proof
    assume "str_contains (c # cs) k"
    then consider "starts_with (c # cs) k" | "str_contains cs k" by auto
    then show "\<exists>a b. c # cs = a @ k @ b"
    proof cases
      case 1
      then obtain b where "c # cs = k @ b" using starts_with_iff by blast
      then have "c # cs = [] @ k @ b" by simp
      then show ?thesis by blast
    next
      case 2
      then obtain a b where "cs = a @ k @ b" using Cons.IH by blast
      then have "c # cs = (c # a) @ k @ b" by simp
      then show ?thesis by blast
    qed
  next
    assume "\<exists>a b. c # cs = a @ k @ b"
    then obtain a b where ab: "c # cs = a @ k @ b" by blast
    show "str_contains (c # cs) k"
    proof (cases a)
      case Nil
      with ab have "starts_with (c # cs) k" using starts_with_iff by auto
      then show ?thesis by simp
    next
      case (Cons x a')
      with ab have "cs = a' @ k @ b" by simp
      then have "str_contains cs k" using Cons.IH by blast
      then show ?thesis by simp
    qed
  qed
qed

lemma py_any_in_str: "py_any_in ks (PyStr t) = Inr (\<exists>k\<in>set ks. str_contains t k)"
  by (induction ks) auto


text \<open>
  Claim C1. For every string \<open>t\<close>, the validator of \<^verbatim>\<open>Post.title\<close> accepts \<open>t\<close> if and only
  if \<open>t\<close> contains one of the four markers "Won't Believe", "Secret", "Top", "Guess" as a
  substring, compared character by character; otherwise it raises a \<open>ValueError\<close>.
\<close>

theorem validate_title_accepts_iff_marker:
  "validate_title (PyStr t) =
     (if \<exists>k\<in>set [''Won't Believe'', ''Secret'', ''Top'', ''Guess'']. \<exists>a b. t = a @ k @ b
      then Inr (PyStr t)
      else Inl (ValueError
        ''Post title must contain one of: 'Won't Believe', 'Secret', 'Top', 'Guess'.''))"
  unfolding validate_title_def clickbait_keywords_def py_any_in_str
  by (simp only: str_contains_iff [symmetric]) simp

theorem validate_title_accepts_iff_marker_witness:
  "(\<exists>k\<in>set [''Won't Believe'', ''Secret'', ''Top'', ''Guess'']. \<exists>a b. ''Top 10 Secrets'' = a @ k @ b)
   \<and> validate_title (PyStr ''Top 10 Secrets'') = Inr (PyStr ''Top 10 Secrets'')
   \<and> \<not> (\<exists>k\<in>set [''Won't Believe'', ''Secret'', ''Top'', ''Guess'']. \<exists>a b. ''A Nice Day'' = a @ k @ b)
   \<and> validate_title (PyStr ''A Nice Day'') = Inl (ValueError
        ''Post title must contain one of: 'Won't Believe', 'Secret', 'Top', 'Guess'.'')"
  (is "?P1 \<and> ?V1 \<and> \<not> ?P2 \<and> ?V2")
proof -
  have v1: ?V1
    by (simp add: validate_title_def clickbait_keywords_def)
  have v2: ?V2
    by (simp add: validate_title_def clickbait_keywords_def)
  have p1: ?P1
  proof (rule ccontr)
    assume "\<not> ?P1"
    then have "validate_title (PyStr ''Top 10 Secrets'') = Inl (ValueError
        ''Post title must contain one of: 'Won't Believe', 'Secret', 'Top', 'Guess'.'')"
      using validate_title_accepts_iff_marker [of "''Top 10 Secrets''"] by (simp only: if_False)
    with v1 show False by simp
  qed
  have p2: "\<not> ?P2"
  proof
    assume ?P2
    then have "validate_title (PyStr ''A Nice Day'') = Inr (PyStr ''A Nice Day'')"
      using validate_title_accepts_iff_marker [of "''A Nice Day''"] by (simp only: if_True)
    with v2 show False by simp
  qed
  from p1 v1 p2 v2 show ?thesis by blast
qed



text \<open>
  Claim C3. For every string \<open>c\<close>, the validator of \<^verbatim>\<open>Post.content\<close> accepts \<open>c\<close> if and only
  if \<^verbatim>\<open>len(c) >= 250\<close>; a shorter string and \<^verbatim>\<open>None\<close> are rejected with a \<open>ValueError\<close>.
\<close>

theorem validate_content_accepts_iff:
  "validate_content (PyStr c) =
     (if 250 \<le> length c then Inr (PyStr c)
      else Inl (ValueError ''Post content must be at least 250 characters long.''))
   \<and> validate_content PyNone =
       Inl (ValueError ''Post content must be at least 250 characters long.'')"
  by (auto simp: validate_content_def)

theorem validate_content_accepts_iff_witness:
  "validate_content (PyStr (replicate 250 CHR ''x'')) = Inr (PyStr (replicate 250 CHR ''x''))
   \<and> validate_content (PyStr (replicate 249 CHR ''x''))
       = Inl (ValueError ''Post content must be at least 250 characters long.'')"
  using validate_content_accepts_iff [of "replicate 250 CHR ''x''"]
    validate_content_accepts_iff [of "replicate 249 CHR ''x''"]
  by simp

text \<open>
  Claim C4. For every candidate value \<open>v\<close>, the validator of \<^verbatim>\<open>Post.category\<close> accepts \<open>v\<close> if
  and only if \<open>v\<close> is the string "Fiction" or the string "Non-Fiction"; every other value,
  \<^verbatim>\<open>None\<close> included, is rejected with a \<open>ValueError\<close>.
\<close>

theorem validate_category_accepts_iff:
  "validate_category v =
     (if v = PyStr ''Fiction'' \<or> v = PyStr ''Non-Fiction'' then Inr v
      else Inl (ValueError ''Post category must be 'Fiction' or 'Non-Fiction'.''))"
  by (cases v) (auto simp: validate_category_def)

theorem validate_category_accepts_iff_witness:
  "validate_category (PyStr ''Fiction'') = Inr (PyStr ''Fiction'')
   \<and> validate_category (PyStr ''Non-Fiction'') = Inr (PyStr ''Non-Fiction'')
   \<and> validate_category PyNone
       = Inl (ValueError ''Post category must be 'Fiction' or 'Non-Fiction'.'')
   \<and> validate_category (PyStr ''fiction'')
       = Inl (ValueError ''Post category must be 'Fiction' or 'Non-Fiction'.'')"
  using validate_category_accepts_iff [of "PyStr ''Fiction''"]
    validate_category_accepts_iff [of "PyStr ''Non-Fiction''"]
    validate_category_accepts_iff [of PyNone]
    validate_category_accepts_iff [of "PyStr ''fiction''"]
  by simp

section \<open>Properties of the serialization\<close>

lemma Author_rules: "List.map_filter negative_rule Author_serialize_rules = [[''posts'', ''author'']]"
  by (simp add: Author_serialize_rules_def List.map_filter_def)

lemma Post_rules: "List.map_filter negative_rule Post_serialize_rules = [[''author'', ''posts'']]"
  by (simp add: Post_serialize_rules_def List.map_filter_def)

lemma those_map_Some: "those (map (\<lambda>x. Some (f x)) xs) = Some (map f xs)"
  by (induction xs) simp_all

lemma serialize_nested_post:
  "serialize (Suc n) db [[''author'']] (Post_ent p) =
     Some (PyDict [(''id'', pk (p_id p)), (''title'', p_title p), (''content'', p_content p),
                  (''category'', p_category p), (''summary'', p_summary p),
                  (''author_id'', p_author_id p)])"
  by (simp add: Post_rules excluded_def)

lemma serialize_nested_author:
  "serialize (Suc n) db [[''posts'']] (Author_ent a) =
     Some (PyDict [(''id'', pk (a_id a)), (''name'', a_name a),
                  (''phone_number'', a_phone_number a)])"
  by (simp add: Author_rules excluded_def)

lemma serialize_author:
  "serialize (Suc (Suc n)) db [] (Author_ent a) =
     Some (PyDict [(''id'', pk (a_id a)), (''name'', a_name a),
                   (''phone_number'', a_phone_number a),
                   (''posts'', PyList (map (\<lambda>p. PyDict [(''id'', pk (p_id p)), (''title'', p_title p), (''content'', p_content p),
                  (''category'', p_category p), (''summary'', p_summary p),
                  (''author_id'', p_author_id p)]) (Author_posts db a)))])"
proof -
  have f: "fork [[''posts'', ''author'']] ''posts'' = [[''author'']]"
    by (simp add: fork_def)
  show ?thesis
    unfolding serialize.simps(2) [of "Suc n"] Author_rules
    by (simp add: excluded_def f serialize_nested_post those_map_Some del: serialize.simps)
qed

lemma serialize_post:
  "serialize (Suc (Suc n)) db [] (Post_ent p) =
     Some (PyDict [(''id'', pk (p_id p)), (''title'', p_title p), (''content'', p_content p),
                  (''category'', p_category p), (''summary'', p_summary p),
                  (''author_id'', p_author_id p),
                  (''author'', case Post_author db p of None \<Rightarrow> PyNone
                     | Some a \<Rightarrow> PyDict [(''id'', pk (a_id a)), (''name'', a_name a),
                  (''phone_number'', a_phone_number a)])])"
proof -
  have f: "fork [[''author'', ''posts'']] ''author'' = [[''posts'']]"
    by (simp add: fork_def)
  show ?thesis
    unfolding serialize.simps(3) [of "Suc n"] Post_rules
    by (simp add: excluded_def f serialize_nested_author del: serialize.simps split: option.splits)
qed

lemma enough_fuel: "2 \<le> k \<Longrightarrow> \<exists>n. k = Suc (Suc n)"
  by presburger

lemma to_dict_author:
  assumes "2 \<le> recursion_limit rt"
  shows "to_dict rt db (Author_ent a) =
     Some (PyDict [(''id'', pk (a_id a)), (''name'', a_name a),
                   (''phone_number'', a_phone_number a),
                   (''posts'', PyList (map (\<lambda>p. PyDict [(''id'', pk (p_id p)), (''title'', p_title p), (''content'', p_content p),
                  (''category'', p_category p), (''summary'', p_summary p),
                  (''author_id'', p_author_id p)]) (Author_posts db a)))])"
proof -
  from assms obtain n where "recursion_limit rt = Suc (Suc n)" using enough_fuel by blast
  then show ?thesis unfolding to_dict_def by (simp only: serialize_author)
qed

lemma to_dict_post:
  assumes "2 \<le> recursion_limit rt"
  shows "to_dict rt db (Post_ent p) =
     Some (PyDict [(''id'', pk (p_id p)), (''title'', p_title p), (''content'', p_content p),
                  (''category'', p_category p), (''summary'', p_summary p),
                  (''author_id'', p_author_id p),
                  (''author'', case Post_author db p of None \<Rightarrow> PyNone
                     | Some a \<Rightarrow> PyDict [(''id'', pk (a_id a)), (''name'', a_name a),
                  (''phone_number'', a_phone_number a)])])"
proof -
  from assms obtain n where "recursion_limit rt = Suc (Suc n)" using enough_fuel by blast
  then show ?thesis unfolding to_dict_def by (simp only: serialize_post)
qed

text \<open>
  Claim C8. For every Author and every Post, the serialization leaves out the reference back:
  the dict of an Author has its Posts under \<^verbatim>\<open>posts\<close>, none of them with a key \<^verbatim>\<open>author\<close>, and
  the dict of a Post has under \<^verbatim>\<open>author\<close> either \<^verbatim>\<open>None\<close> or the dict of its Author without
  a key \<^verbatim>\<open>posts\<close>. The serialization enters two entities at most, so it returns a result,
  which is a finite tree, whenever the interpreter allows a nesting of two.
\<close>

theorem to_dict_omits_back_reference:
  assumes "2 \<le> recursion_limit rt"
  shows "(\<exists>kvs ds. to_dict rt db (Author_ent a) = Some (PyDict kvs)
            \<and> map_of kvs ''posts'' = Some (PyList ds)
            \<and> length ds = length (Author_posts db a)
            \<and> (\<forall>d\<in>set ds. \<exists>pkvs. d = PyDict pkvs \<and> ''author'' \<notin> set (map fst pkvs)))
       \<and> (\<exists>kvs. to_dict rt db (Post_ent p) = Some (PyDict kvs)
            \<and> (map_of kvs ''author'' = Some PyNone
               \<or> (\<exists>akvs. map_of kvs ''author'' = Some (PyDict akvs)
                     \<and> ''posts'' \<notin> set (map fst akvs))))"
proof
  show "\<exists>kvs ds. to_dict rt db (Author_ent a) = Some (PyDict kvs)
            \<and> map_of kvs ''posts'' = Some (PyList ds)
            \<and> length ds = length (Author_posts db a)
            \<and> (\<forall>d\<in>set ds. \<exists>pkvs. d = PyDict pkvs \<and> ''author'' \<notin> set (map fst pkvs))"
    unfolding to_dict_author [OF assms] by auto
  show "\<exists>kvs. to_dict rt db (Post_ent p) = Some (PyDict kvs)
            \<and> (map_of kvs ''author'' = Some PyNone
               \<or> (\<exists>akvs. map_of kvs ''author'' = Some (PyDict akvs)
                     \<and> ''posts'' \<notin> set (map fst akvs)))"
    unfolding to_dict_post [OF assms] by (cases "Post_author db p") auto
qed

theorem to_dict_omits_back_reference_witness:
  "2 \<le> recursion_limit sqlite_runtime
   \<and> to_dict sqlite_runtime
        \<lparr>authors = [\<lparr>a_id = Some 1, a_name = PyStr ''Ann'', a_phone_number = PyNone\<rparr>],
         posts = [\<lparr>p_id = Some 1, p_title = PyStr ''Top'', p_content = PyStr ''text'',
                   p_category = PyStr ''Fiction'', p_summary = PyNone,
                   p_author_id = PyInt 1\<rparr>]\<rparr>
        (Author_ent \<lparr>a_id = Some 1, a_name = PyStr ''Ann'', a_phone_number = PyNone\<rparr>) =
       Some (PyDict [(''id'', PyInt 1), (''name'', PyStr ''Ann''), (''phone_number'', PyNone),
         (''posts'', PyList [PyDict [(''id'', PyInt 1), (''title'', PyStr ''Top''),
            (''content'', PyStr ''text''), (''category'', PyStr ''Fiction''),
            (''summary'', PyNone), (''author_id'', PyInt 1)]])])
   \<and> (\<exists>kvs. to_dict sqlite_runtime
        \<lparr>authors = [\<lparr>a_id = Some 1, a_name = PyStr ''Ann'', a_phone_number = PyNone\<rparr>],
         posts = [\<lparr>p_id = Some 1, p_title = PyStr ''Top'', p_content = PyStr ''text'',
                   p_category = PyStr ''Fiction'', p_summary = PyNone,
                   p_author_id = PyInt 1\<rparr>]\<rparr>
        (Post_ent \<lparr>p_id = Some 1, p_title = PyStr ''Top'', p_content = PyStr ''text'',
                   p_category = PyStr ''Fiction'', p_summary = PyNone,
                   p_author_id = PyInt 1\<rparr>) = Some (PyDict kvs)
            \<and> (map_of kvs ''author'' = Some PyNone
               \<or> (\<exists>akvs. map_of kvs ''author'' = Some (PyDict akvs)
                     \<and> ''posts'' \<notin> set (map fst akvs))))"
proof -
  have l: "2 \<le> recursion_limit sqlite_runtime"
    by (simp add: sqlite_runtime_def)
  have a: "to_dict sqlite_runtime
        \<lparr>authors = [\<lparr>a_id = Some 1, a_name = PyStr ''Ann'', a_phone_number = PyNone\<rparr>],
         posts = [\<lparr>p_id = Some 1, p_title = PyStr ''Top'', p_content = PyStr ''text'',
                   p_category = PyStr ''Fiction'', p_summary = PyNone,
                   p_author_id = PyInt 1\<rparr>]\<rparr>
        (Author_ent \<lparr>a_id = Some 1, a_name = PyStr ''Ann'', a_phone_number = PyNone\<rparr>) =
       Some (PyDict [(''id'', PyInt 1), (''name'', PyStr ''Ann''), (''phone_number'', PyNone),
         (''posts'', PyList [PyDict [(''id'', PyInt 1), (''title'', PyStr ''Top''),
            (''content'', PyStr ''text''), (''category'', PyStr ''Fiction''),
            (''summary'', PyNone), (''author_id'', PyInt 1)]])])"
    by (simp add: to_dict_author [OF l] Author_posts_def pk_def)
  from to_dict_omits_back_reference [OF l] l a show ?thesis
    by blast
qed

section \<open>Properties of the request handlers\<close>

lemma error_status:
  "status (bad_request x) = 400" "status (internal_server_error x) = 500"
  by (cases x; simp add: make_response_def)+

lemma bad_request_Str: "bad_request (Str s) = \<lparr>status = 400, body = PyDict [(''error'', PyStr ''Bad Request'')]\<rparr>"
  by (simp add: make_response_def)

lemma internal_server_error_Str:
  "internal_server_error (Str s) = \<lparr>status = 500, body = PyDict [(''error'', PyStr ''Internal Server Error'')]\<rparr>"
  by (simp add: make_response_def)

lemma validate_title_None: "validate_title PyNone = Inl TypeError"
  by (simp add: validate_title_def clickbait_keywords_def)






lemma validate_category_bindable: "validate_category v = Inr w \<Longrightarrow> bindable w"
  by (cases v) (auto simp: validate_category_def split: if_splits)

lemma create_post_foreign_keys_enforced:
  assumes "foreign_keys rt" and "kvs \<noteq> []"
    and "Post (case map_of kvs ''title'' of None \<Rightarrow> PyNone | Some v \<Rightarrow> v)
              (case map_of kvs ''content'' of None \<Rightarrow> PyNone | Some v \<Rightarrow> v)
              (case map_of kvs ''summary'' of None \<Rightarrow> PyNone | Some v \<Rightarrow> v)
              (case map_of kvs ''category'' of None \<Rightarrow> PyNone | Some v \<Rightarrow> v)
              (case map_of kvs ''author_id'' of None \<Rightarrow> PyNone | Some v \<Rightarrow> v) = Inr p"
    and "bindable (p_title p)" "bindable (p_content p)" "bindable (p_summary p)"
      "bindable (p_author_id p)"
    and "integer_affinity rt (p_author_id p) \<notin> set (map (\<lambda>a. pk (a_id a)) (authors db))"
  shows "create_post rt (PyDict kvs) db =
           (bad_request (Str ''Failed to create post. Ensure author_id is valid.''), db)"
proof -
  from assms(3) have "bindable (p_category p)"
    by (auto simp: Post_def split: sum.splits dest: validate_category_bindable)
  with assms have "commit_post rt db p = Inl IntegrityError"
    by (simp add: commit_post_def Let_def)
  with assms(2,3) show ?thesis
    by (simp add: create_post_def try_create_post_def)
qed




text \<open>
  Claim C6 says that a \<^verbatim>\<open>POST /posts\<close> whose \<^verbatim>\<open>author_id\<close> names no Author is answered with
  HTTP 400 and creates no Post. On the connection that \<^verbatim>\<open>app.py\<close> configures, a Post whose
  other fields are valid and whose \<^verbatim>\<open>author_id\<close> is 999 is stored in a data base without
  Authors, and the answer is 201.
\<close>

theorem unknown_author_id_accepted:
  "create_post sqlite_runtime
     (PyDict [(''title'', PyStr ''Top 10 Secrets''), (''content'', PyStr (replicate 250 CHR ''x'')),
              (''category'', PyStr ''Fiction''), (''author_id'', PyInt 999)])
     \<lparr>authors = [], posts = []\<rparr> =
   (\<lparr>status = 201,
      body = PyDict [(''id'', PyInt 1), (''title'', PyStr ''Top 10 Secrets''),
                     (''content'', PyStr (replicate 250 CHR ''x'')),
                     (''category'', PyStr ''Fiction''), (''summary'', PyNone),
                     (''author_id'', PyInt 999), (''author'', PyNone)]\<rparr>,
    \<lparr>authors = [],
      posts = [\<lparr>p_id = Some 1, p_title = PyStr ''Top 10 Secrets'',
                p_content = PyStr (replicate 250 CHR ''x''), p_category = PyStr ''Fiction'',
                p_summary = PyNone, p_author_id = PyInt 999\<rparr>]\<rparr>)"
proof -
  have l: "2 \<le> recursion_limit sqlite_runtime" by (simp add: sqlite_runtime_def)
  have P: "Post (PyStr ''Top 10 Secrets'') (PyStr (replicate 250 CHR ''x'')) PyNone
             (PyStr ''Fiction'') (PyInt 999) =
           Inr \<lparr>p_id = None, p_title = PyStr ''Top 10 Secrets'',
                p_content = PyStr (replicate 250 CHR ''x''), p_category = PyStr ''Fiction'',
                p_summary = PyNone, p_author_id = PyInt 999\<rparr>"
    by (simp add: Post_def validate_title_def clickbait_keywords_def validate_content_def
        validate_summary_def validate_category_def)
  have C: "commit_post sqlite_runtime \<lparr>authors = [], posts = []\<rparr>
             \<lparr>p_id = None, p_title = PyStr ''Top 10 Secrets'',
                p_content = PyStr (replicate 250 CHR ''x''), p_category = PyStr ''Fiction'',
                p_summary = PyNone, p_author_id = PyInt 999\<rparr> =
           Inr (\<lparr>p_id = Some 1, p_title = PyStr ''Top 10 Secrets'',
                p_content = PyStr (replicate 250 CHR ''x''), p_category = PyStr ''Fiction'',
                p_summary = PyNone, p_author_id = PyInt 999\<rparr>,
                \<lparr>authors = [],
      posts = [\<lparr>p_id = Some 1, p_title = PyStr ''Top 10 Secrets'',
                p_content = PyStr (replicate 250 CHR ''x''), p_category = PyStr ''Fiction'',
                p_summary = PyNone, p_author_id = PyInt 999\<rparr>]\<rparr>)"
    by (simp add: commit_post_def sqlite_runtime_def fresh_id_def Let_def)
  show ?thesis
    by (simp add: create_post_def try_create_post_def P C to_dict_post [OF l] Post_author_def
        make_response_def pk_def)
qed

text \<open>
  Claim C9, as the code has it. For every \<^verbatim>\<open>POST /posts\<close> request whose body is a JSON object
  that is not empty and has no key \<^verbatim>\<open>title\<close>, the validator of the title receives \<^verbatim>\<open>None\<close>,
  its substring test raises a \<open>TypeError\<close>, which the \<^verbatim>\<open>ValueError\<close> clause does not catch,
  and the request is answered with HTTP 500; the data base is unchanged.
\<close>

theorem create_post_without_title:
  assumes "kvs \<noteq> []" and "map_of kvs ''title'' = None"
  shows "validate_title PyNone = Inl TypeError
       \<and> try_create_post rt (PyDict kvs) db = Inl (TypeError, db)
       \<and> status (fst (create_post rt (PyDict kvs) db)) = 500
       \<and> snd (create_post rt (PyDict kvs) db) = db"
proof -
  have t: "try_create_post rt (PyDict kvs) db = Inl (TypeError, db)"
    using assms(2) by (simp add: try_create_post_def Post_def validate_title_None)
  then show ?thesis
    using assms(1) by (simp add: create_post_def validate_title_None make_response_def)
qed

theorem create_post_without_title_witness:
  "[(''content'', PyStr ''text'')] \<noteq> [] \<and> map_of [(''content'', PyStr ''text'')] ''title'' = None
   \<and> status (fst (create_post sqlite_runtime (PyDict [(''content'', PyStr ''text'')])
         \<lparr>authors = [], posts = []\<rparr>)) = 500
   \<and> snd (create_post sqlite_runtime (PyDict [(''content'', PyStr ''text'')])
         \<lparr>authors = [], posts = []\<rparr>) = \<lparr>authors = [], posts = []\<rparr>"
  using create_post_without_title [of "[(''content'', PyStr ''text'')]" sqlite_runtime "\<lparr>authors = [], posts = []\<rparr>"]
  by simp

text \<open>
  Claim C9 does not hold for the empty object, which has no key \<^verbatim>\<open>title\<close> either: the guard
  at the start of the handler answers it with 400 before a validator runs.
\<close>

theorem create_post_empty_body_counterexample:
  "map_of ([] :: (string \<times> pyval) list) ''title'' = None
   \<and> status (fst (create_post sqlite_runtime (PyDict []) \<lparr>authors = [], posts = []\<rparr>)) = 400"
  by (simp add: create_post_def make_response_def)

text \<open>
  Claim C10 says that a body which is the empty object or \<^verbatim>\<open>None\<close> is answered with HTTP 400
  and the message "No input data provided.". Both handlers answer with 400 before anything
  else happens and leave the data base unchanged, but with the message "Bad Request": the
  error handler only shows the text of an exception, and the handlers pass it a str.
\<close>

theorem no_input_data_message:
  "create_author rt (PyDict []) db = (\<lparr>status = 400, body = PyDict [(''error'', PyStr ''Bad Request'')]\<rparr>, db)
   \<and> create_author rt PyNone db = (\<lparr>status = 400, body = PyDict [(''error'', PyStr ''Bad Request'')]\<rparr>, db)
   \<and> create_post rt (PyDict []) db = (\<lparr>status = 400, body = PyDict [(''error'', PyStr ''Bad Request'')]\<rparr>, db)
   \<and> create_post rt PyNone db = (\<lparr>status = 400, body = PyDict [(''error'', PyStr ''Bad Request'')]\<rparr>, db)"
  by (simp add: create_author_def create_post_def make_response_def)

section \<open>Properties of the deletion\<close>

text \<open>
  Claim C7. Deleting an Author deletes its Posts in the same operation: afterwards no Post
  has the key of the Author as its \<^verbatim>\<open>author_id\<close>, the collection \<^verbatim>\<open>posts\<close> of the Author is
  empty, no Author has that key, and the Posts of the other Authors are all kept.
\<close>

theorem delete_author_leaves_no_orphan:
  assumes "a_id a = Some k"
  shows "(\<forall>p\<in>set (posts (delete_author db a)). p_author_id p \<noteq> PyInt k)
       \<and> Author_posts (delete_author db a) a = []
       \<and> (\<forall>x\<in>set (authors (delete_author db a)). a_id x \<noteq> Some k)
       \<and> posts (delete_author db a) = filter (\<lambda>p. p_author_id p \<noteq> PyInt k) (posts db)"
  using assms
  by (auto simp: delete_author_def Author_posts_def filter_empty_conv intro: filter_cong)

theorem delete_author_leaves_no_orphan_witness:
  "a_id \<lparr>a_id = Some 1, a_name = PyStr ''Ann'', a_phone_number = PyNone\<rparr> = Some 1
   \<and> posts (delete_author
        \<lparr>authors = [\<lparr>a_id = Some 1, a_name = PyStr ''Ann'', a_phone_number = PyNone\<rparr>,
                    \<lparr>a_id = Some 2, a_name = PyStr ''Bob'', a_phone_number = PyNone\<rparr>],
         posts = [\<lparr>p_id = Some 1, p_title = PyStr ''Top'', p_content = PyStr ''one'',
                   p_category = PyStr ''Fiction'', p_summary = PyNone, p_author_id = PyInt 1\<rparr>,
                  \<lparr>p_id = Some 2, p_title = PyStr ''Guess'', p_content = PyStr ''two'',
                   p_category = PyStr ''Fiction'', p_summary = PyNone, p_author_id = PyInt 2\<rparr>,
                  \<lparr>p_id = Some 3, p_title = PyStr ''Secret'', p_content = PyStr ''three'',
                   p_category = PyStr ''Fiction'', p_summary = PyNone, p_author_id = PyInt 1\<rparr>]\<rparr>
        \<lparr>a_id = Some 1, a_name = PyStr ''Ann'', a_phone_number = PyNone\<rparr>) =
       [\<lparr>p_id = Some 2, p_title = PyStr ''Guess'', p_content = PyStr ''two'',
         p_category = PyStr ''Fiction'', p_summary = PyNone, p_author_id = PyInt 2\<rparr>]"
  using delete_author_leaves_no_orphan
    [of "\<lparr>a_id = Some 1, a_name = PyStr ''Ann'', a_phone_number = PyNone\<rparr>" 1
        "\<lparr>authors = [\<lparr>a_id = Some 1, a_name = PyStr ''Ann'', a_phone_number = PyNone\<rparr>,
                    \<lparr>a_id = Some 2, a_name = PyStr ''Bob'', a_phone_number = PyNone\<rparr>],
         posts = [\<lparr>p_id = Some 1, p_title = PyStr ''Top'', p_content = PyStr ''one'',
                   p_category = PyStr ''Fiction'', p_summary = PyNone, p_author_id = PyInt 1\<rparr>,
                  \<lparr>p_id = Some 2, p_title = PyStr ''Guess'', p_content = PyStr ''two'',
                   p_category = PyStr ''Fiction'', p_summary = PyNone, p_author_id = PyInt 2\<rparr>,
                  \<lparr>p_id = Some 3, p_title = PyStr ''Secret'', p_content = PyStr ''three'',
                   p_category = PyStr ''Fiction'', p_summary = PyNone, p_author_id = PyInt 1\<rparr>]\<rparr>"]
  by simp

end
